theory Spec2Isabelle
  imports Main "HOL-Library.Word"
begin

section \<open>JXA execution utilities (utils/jxa)\<close>

subsection \<open>JavaScript strings\<close>

text \<open>
  A JavaScript string is a sequence of 16-bit code units. The regular expressions of the
  module carry no \<open>u\<close> flag, so \<open>replace\<close>, \<open>match\<close> and \<open>trim\<close> all work on code
  units; a character outside the Basic Multilingual Plane is two code units (a surrogate
  pair), neither of which is special to any function below.
\<close>

type_synonym code_unit = "16 word"
type_synonym jsstring = "code_unit list"

text \<open>An ASCII literal of the source, as code units.\<close>

definition lit :: "string \<Rightarrow> jsstring" where
  "lit s = map (\<lambda>c. of_nat (of_char c)) s"

abbreviation TAB :: code_unit where "TAB \<equiv> 0x09"
abbreviation LF :: code_unit where "LF \<equiv> 0x0A"
abbreviation CR :: code_unit where "CR \<equiv> 0x0D"
abbreviation DQUOTE :: code_unit where "DQUOTE \<equiv> 0x22"
abbreviation SQUOTE :: code_unit where "SQUOTE \<equiv> 0x27"
abbreviation BACKSLASH :: code_unit where "BACKSLASH \<equiv> 0x5C"

text \<open>
  \<open>s.replace(/c/g, r)\<close> for a pattern that is one literal code unit \<open>c\<close> and a
  replacement \<open>r\<close> without \<open>$\<close>: every occurrence of \<open>c\<close>, left to right, becomes \<open>r\<close>.
\<close>

primrec replace_all :: "code_unit \<Rightarrow> jsstring \<Rightarrow> jsstring \<Rightarrow> jsstring" where
  "replace_all c r [] = []"
| "replace_all c r (x # xs) = (if x = c then r else [x]) @ replace_all c r xs"

text \<open>
  \<open>String.prototype.trim\<close> strips WhiteSpace and LineTerminator code units from both
  ends: TAB, LF, VT, FF, CR, SP, NBSP, the Unicode space separators, LS, PS and the
  byte-order mark.
\<close>

definition is_whitespace :: "code_unit \<Rightarrow> bool" where
  "is_whitespace c =
     (c = 0x09 \<or> c = 0x0A \<or> c = 0x0B \<or> c = 0x0C \<or> c = 0x0D \<or> c = 0x20 \<or> c = 0xA0
      \<or> c = 0x1680 \<or> (0x2000 \<le> c \<and> c \<le> 0x200A) \<or> c = 0x2028 \<or> c = 0x2029
      \<or> c = 0x202F \<or> c = 0x205F \<or> c = 0x3000 \<or> c = 0xFEFF)"

definition trim :: "jsstring \<Rightarrow> jsstring" where
  "trim s = rev (dropWhile is_whitespace (rev (dropWhile is_whitespace s)))"

text \<open>
  The decimal digits of a natural number. A template literal prints an integer this
  way as long as it is below \<open>10\<^sup>2\<^sup>1\<close>; the one use below is on a number of seconds
  below \<open>2\<^sup>5\<^sup>3\<close>.
\<close>

fun decimal_digits :: "nat \<Rightarrow> jsstring" where
  "decimal_digits n =
     (if n < 10 then [of_nat (48 + n)]
      else decimal_digits (n div 10) @ [of_nat (48 + n mod 10)])"

declare decimal_digits.simps [simp del]

subsection \<open>escapeForJXA\<close>

text \<open>
  \<^verbatim>\<open>if (!str) return "";\<close> followed by the five chained global replacements, the
  innermost call being the first one the source applies.
\<close>

definition escapeForJXA :: "jsstring \<Rightarrow> jsstring" where
  "escapeForJXA str =
     (if str = [] then []
      else replace_all TAB [BACKSLASH, 0x74]
            (replace_all CR [BACKSLASH, 0x72]
              (replace_all LF [BACKSLASH, 0x6E]
                (replace_all DQUOTE [BACKSLASH, DQUOTE]
                  (replace_all BACKSLASH [BACKSLASH, BACKSLASH] str)))))"

text \<open>
  What a single pass over the input would emit for one code unit: the reference the
  chained replacements are compared with.
\<close>

definition escape_unit :: "code_unit \<Rightarrow> jsstring" where
  "escape_unit c =
     (if c = BACKSLASH then [BACKSLASH, BACKSLASH]
      else if c = DQUOTE then [BACKSLASH, DQUOTE]
      else if c = LF then [BACKSLASH, 0x6E]
      else if c = CR then [BACKSLASH, 0x72]
      else if c = TAB then [BACKSLASH, 0x74]
      else [c])"

text \<open>
  The body of a double-quoted JavaScript string literal, read back by the literal
  grammar restricted to the five escapes the module emits: a backslash must be followed
  by a backslash, a double quote, \<open>n\<close>, \<open>r\<close> or \<open>t\<close>. An unescaped double quote would
  end the literal and an unescaped LF or CR is not allowed inside one, so all three
  make the body ill-formed (\<open>None\<close>), as does any other escape or a trailing
  backslash. Every other code unit stands for itself (LS and PS included, which the
  grammar admits unescaped since ECMAScript 2019).
\<close>

definition unescape_unit :: "code_unit \<Rightarrow> code_unit option" where
  "unescape_unit e =
     (if e = BACKSLASH then Some BACKSLASH
      else if e = DQUOTE then Some DQUOTE
      else if e = 0x6E then Some LF
      else if e = 0x72 then Some CR
      else if e = 0x74 then Some TAB
      else None)"

fun decode_literal :: "jsstring \<Rightarrow> jsstring option" where
  "decode_literal [] = Some []"
| "decode_literal [c] =
     (if c = BACKSLASH \<or> c = DQUOTE \<or> c = LF \<or> c = CR then None else Some [c])"
| "decode_literal (c # e # rest) =
     (if c = BACKSLASH then
        (case unescape_unit e of
           None \<Rightarrow> None
         | Some d \<Rightarrow> map_option ((#) d) (decode_literal rest))
      else if c = DQUOTE \<or> c = LF \<or> c = CR then None
      else map_option ((#) c) (decode_literal (e # rest)))"

subsection \<open>executeJXA\<close>

record JXAResult =
  success :: bool
  output' :: jsstring
  error :: "jsstring option"

text \<open>
  The one option is a number of milliseconds, a non-negative integer when present, as
  the data model of the specification has it.
\<close>

record JXAOptions =
  timeoutMs :: "nat option"

abbreviation DEFAULT_TIMEOUT_MS :: nat where "DEFAULT_TIMEOUT_MS \<equiv> 30000"

text \<open>
  A value a \<open>catch\<close> clause can receive:
  \<^item> an \<open>Error\<close> instance whose message is a string, with the two fields
    \<open>child_process\<close> may set on it (\<open>killed\<close>, \<open>signal\<close>, each possibly absent);
  \<^item> an \<open>Error\<close> instance whose message is not a string (absent, a number, ...), which
    the declared type of \<open>Error\<close> rules out and the language does not;
  \<^item> any value that is not an \<open>Error\<close> instance.
\<close>

datatype thrown =
  ErrorObject (message: jsstring) (killed: "bool option") (signal: "jsstring option")
| ErrorNonStringMessage (killed: "bool option") (signal: "jsstring option")
| NonError

text \<open>What \<open>executeJXA\<close> itself can throw.\<close>

datatype js_exception = TypeError

text \<open>
  The process facility \<open>execSync(command, {encoding: "utf8", timeout, stdio})\<close>: given
  the command and the timeout it either returns the captured standard output or throws.
\<close>

type_synonym exec_sync = "jsstring \<Rightarrow> nat \<Rightarrow> thrown + jsstring"

definition isTimeoutError :: "thrown \<Rightarrow> bool" where
  "isTimeoutError e =
     (case e of
        ErrorObject m k sg \<Rightarrow> k = Some True \<or> sg = Some (lit ''SIGTERM'')
      | ErrorNonStringMessage k sg \<Rightarrow> k = Some True \<or> sg = Some (lit ''SIGTERM'')
      | NonError \<Rightarrow> False)"

text \<open>
  \<open>.\<close> of a regular expression without the \<open>s\<close> flag matches every code unit except the
  line terminators LF, CR, LS and PS.
\<close>

definition is_line_terminator :: "code_unit \<Rightarrow> bool" where
  "is_line_terminator c = (c = LF \<or> c = CR \<or> c = 0x2028 \<or> c = 0x2029)"

text \<open>
  \<open>/Error: (.+)/\<close> tried at the start of \<open>s\<close>: the literal text, then the longest
  non-empty run of code units that are not line terminators. Nothing follows the
  group, so the greedy run never backtracks.
\<close>

definition match_here :: "jsstring \<Rightarrow> jsstring option" where
  "match_here s =
     (if take 7 s = lit ''Error: '' then
        (let d = takeWhile (\<lambda>c. \<not> is_line_terminator c) (drop 7 s)
         in if d = [] then None else Some d)
      else None)"

text \<open>
  \<open>message.match(/Error: (.+)/)\<close>, reduced to capture group 1: the pattern is tried at
  each start position from the left and the first success wins.
\<close>

fun match_error :: "jsstring \<Rightarrow> jsstring option" where
  "match_error [] = None"
| "match_error (c # cs) =
     (case match_here (c # cs) of
        Some d \<Rightarrow> Some d
      | None \<Rightarrow> match_error cs)"

text \<open>
  The text of \<^verbatim>\<open>${timeoutSecs}\<close>, where \<open>timeoutSecs = Math.round(timeoutMs / 1000)\<close> is
  computed on IEEE doubles. \<open>Math.round\<close> gives the nearest integer, a tie going up.
  For a safe integer \<open>ms\<close> (below \<open>2\<^sup>5\<^sup>3\<close>) the double quotient is within \<open>2\<^sup>-\<^sup>1\<^sup>0\<close> of
  \<open>ms / 1000\<close>, less than the \<open>1 / 1000\<close> that separates \<open>ms / 1000\<close> from the nearest tie
  it is not on, and a tie is a double; so the rounding is that of the exact quotient,
  \<open>(ms + 500) div 1000\<close>, and the number is printed by its decimal digits. From \<open>2\<^sup>5\<^sup>3\<close> on
  the rounding of the quotient shows (and from \<open>10\<^sup>2\<^sup>1\<close> seconds the exponent notation):
  that text is not computed here but taken as the parameter \<open>large_secs\<close>.
\<close>

definition timeout_secs_text :: "(nat \<Rightarrow> jsstring) \<Rightarrow> nat \<Rightarrow> jsstring" where
  "timeout_secs_text large_secs ms =
     (if ms < 2 ^ 53 then decimal_digits ((ms + 500) div 1000) else large_secs ms)"

definition shell_command :: "jsstring \<Rightarrow> jsstring" where
  "shell_command script =
     lit ''osascript -l JavaScript -e '' @ [SQUOTE]
       @ replace_all SQUOTE [SQUOTE, BACKSLASH, SQUOTE, SQUOTE] (trim script) @ [SQUOTE]"

text \<open>
  The body of the \<open>catch\<close> clause up to the assignment of \<open>errorMessage\<close>. Its middle
  branch is taken by every \<open>Error\<close> instance and calls \<open>error.message.match\<close>: on a
  message that is not a string that call throws a \<open>TypeError\<close>, and nothing encloses
  the \<open>catch\<close> clause to stop it.
\<close>

definition catch_message ::
  "(nat \<Rightarrow> jsstring) \<Rightarrow> nat \<Rightarrow> thrown \<Rightarrow> js_exception + jsstring" where
  "catch_message large_secs ms e =
     (if isTimeoutError e then
        Inr (lit ''Operation timed out after '' @ timeout_secs_text large_secs ms
               @ lit '' seconds'')
      else
        (case e of
           ErrorObject m k sg \<Rightarrow> Inr (case match_error m of Some d \<Rightarrow> d | None \<Rightarrow> m)
         | ErrorNonStringMessage k sg \<Rightarrow> Inl TypeError
         | NonError \<Rightarrow> Inr (lit ''JXA execution failed with unknown error'')))"

text \<open>\<^verbatim>\<open>options.timeoutMs ?? DEFAULT_TIMEOUT_MS\<close>: only an absent option takes the default.\<close>

definition effective_timeout :: "JXAOptions \<Rightarrow> nat" where
  "effective_timeout options =
     (case timeoutMs options of None \<Rightarrow> DEFAULT_TIMEOUT_MS | Some t \<Rightarrow> t)"

text \<open>
  \<open>executeJXA\<close> with the process facility as a parameter (and \<open>large_secs\<close>, see
  above). The first component is how the call completes: \<open>Inr\<close> a returned result,
  \<open>Inl\<close> an exception thrown out of the function. The second is the list of invocations
  of the facility, each with the command and the timeout passed. What the facility
  throws is caught by the \<open>try\<close> block; what the \<open>catch\<close> clause throws leaves the
  function.
\<close>

definition executeJXA ::
  "(nat \<Rightarrow> jsstring) \<Rightarrow> exec_sync \<Rightarrow> jsstring \<Rightarrow> JXAOptions
     \<Rightarrow> (js_exception + JXAResult) \<times> (jsstring \<times> nat) list" where
  "executeJXA large_secs execSync script options =
     (let ms = effective_timeout options
      in if script = [] \<or> trim script = [] then
           (Inr \<lparr>success = False, output' = [],
                 error = Some (lit ''Cannot execute empty JXA script'')\<rparr>, [])
         else
           (let command = shell_command script
            in (case execSync command ms of
                  Inr out \<Rightarrow> Inr \<lparr>success = True, output' = trim out, error = None\<rparr>
                | Inl e \<Rightarrow>
                    (case catch_message large_secs ms e of
                       Inr errorMessage \<Rightarrow>
                         Inr \<lparr>success = False, output' = [], error = Some errorMessage\<rparr>
                     | Inl x \<Rightarrow> Inl x),
                [(command, ms)])))"

subsection \<open>buildNotesJXA\<close>

text \<open>The template literal, line by line; \<open>${code}\<close> inserts the fragment as it is.\<close>

definition buildNotesJXA :: "jsstring \<Rightarrow> jsstring" where
  "buildNotesJXA code =
     [LF] @ lit ''    const Notes = Application('' @ [DQUOTE] @ lit ''Notes'' @ [DQUOTE]
       @ lit '');'' @ [LF]
       @ lit ''    Notes.includeStandardAdditions = true;'' @ [LF]
       @ lit ''    '' @ code @ [LF] @ lit ''  ''"

text \<open>
  Where a message has an interpreter error line: the text \<open>Error: \<close> stands at index
  \<open>i\<close> and at least one code unit follows it before the line ends.
\<close>

definition error_line_at :: "jsstring \<Rightarrow> nat \<Rightarrow> bool" where
  "error_line_at m i =
     (take 7 (drop i m) = lit ''Error: '' \<and> i + 7 < length m
      \<and> \<not> is_line_terminator (m ! (i + 7)))"

section \<open>Properties\<close>

lemma replace_all_append:
  "replace_all c r (xs @ ys) = replace_all c r xs @ replace_all c r ys"
  by (induction xs) simp_all

lemma replace_chain_single_pass:
  "replace_all TAB [BACKSLASH, 0x74]
     (replace_all CR [BACKSLASH, 0x72]
       (replace_all LF [BACKSLASH, 0x6E]
         (replace_all DQUOTE [BACKSLASH, DQUOTE]
           (replace_all BACKSLASH [BACKSLASH, BACKSLASH] s))))
   = concat (map escape_unit s)"
  by (induction s) (simp_all add: replace_all_append escape_unit_def)

lemma escapeForJXA_single_pass: "escapeForJXA s = concat (map escape_unit s)"
  by (simp add: escapeForJXA_def replace_chain_single_pass)

lemma decode_escape_unit:
  "decode_literal (escape_unit c @ rest) = map_option ((#) c) (decode_literal rest)"
  by (cases rest) (simp_all add: escape_unit_def unescape_unit_def)

text \<open>
  C1. For every string, reading the escaped form back by the double-quoted
  string-literal grammar (a backslash followed by a backslash, a double quote, \<open>n\<close>,
  \<open>r\<close> or \<open>t\<close> stands for a backslash, a double quote, a newline, a carriage return or
  a tab) succeeds and gives the string back.
\<close>

theorem escapeForJXA_roundtrip: "decode_literal (escapeForJXA s) = Some s"
  unfolding escapeForJXA_single_pass
  by (induction s) (simp_all add: decode_escape_unit)

text \<open>
  C2. \<open>escapeForJXA\<close> is the five replacements applied in the order backslash, double
  quote, newline, carriage return, tab; the result is what one pass escaping each code
  unit of the input exactly once gives, so no backslash written by a replacement is
  escaped again. The two examples of the specification come out as stated.
\<close>

theorem escapeForJXA_order:
  "escapeForJXA s =
     replace_all TAB [BACKSLASH, 0x74]
       (replace_all CR [BACKSLASH, 0x72]
         (replace_all LF [BACKSLASH, 0x6E]
           (replace_all DQUOTE [BACKSLASH, DQUOTE]
             (replace_all BACKSLASH [BACKSLASH, BACKSLASH] s))))
   \<and> escapeForJXA s = concat (map escape_unit s)
   \<and> escapeForJXA (lit ''path'' @ [BACKSLASH] @ lit ''to'' @ [BACKSLASH] @ lit ''file'')
       = lit ''path'' @ [BACKSLASH, BACKSLASH] @ lit ''to'' @ [BACKSLASH, BACKSLASH] @ lit ''file''
   \<and> escapeForJXA (lit ''say '' @ [DQUOTE] @ lit ''hello'' @ [DQUOTE])
       = lit ''say '' @ [BACKSLASH, DQUOTE] @ lit ''hello'' @ [BACKSLASH, DQUOTE]"
proof -
  have order: "escapeForJXA s =
     replace_all TAB [BACKSLASH, 0x74]
       (replace_all CR [BACKSLASH, 0x72]
         (replace_all LF [BACKSLASH, 0x6E]
           (replace_all DQUOTE [BACKSLASH, DQUOTE]
             (replace_all BACKSLASH [BACKSLASH, BACKSLASH] s))))"
    by (simp add: escapeForJXA_def)
  have pass: "escapeForJXA s = concat (map escape_unit s)"
    by (rule escapeForJXA_single_pass)
  have ex1: "escapeForJXA (lit ''path'' @ [BACKSLASH] @ lit ''to'' @ [BACKSLASH] @ lit ''file'')
       = lit ''path'' @ [BACKSLASH, BACKSLASH] @ lit ''to'' @ [BACKSLASH, BACKSLASH] @ lit ''file''"
    by (simp add: escapeForJXA_def lit_def)
  have ex2: "escapeForJXA (lit ''say '' @ [DQUOTE] @ lit ''hello'' @ [DQUOTE])
       = lit ''say '' @ [BACKSLASH, DQUOTE] @ lit ''hello'' @ [BACKSLASH, DQUOTE]"
    by (simp add: escapeForJXA_def lit_def)
  from order pass ex1 ex2 show ?thesis by blast
qed

lemma replace_all_absent: "c \<notin> set s \<Longrightarrow> replace_all c r s = s"
  by (induction s) auto

text \<open>
  C8. A string with no backslash, double quote, newline, carriage return or tab is
  returned unchanged. The empty string, a string with single quotes and a string of
  non-ASCII code units (with a surrogate pair) are instances.
\<close>

theorem escapeForJXA_identity:
  assumes "BACKSLASH \<notin> set s" and "DQUOTE \<notin> set s" and "LF \<notin> set s"
    and "CR \<notin> set s" and "TAB \<notin> set s"
  shows "escapeForJXA s = s"
  using assms by (simp add: escapeForJXA_def replace_all_absent)

theorem escapeForJXA_identity_witness:
  "escapeForJXA [] = []
   \<and> escapeForJXA (lit ''it's working'') = lit ''it's working''
   \<and> escapeForJXA [0x65E5, 0x672C, 0x8A9E, 0x20, 0xD83C, 0xDF89]
       = [0x65E5, 0x672C, 0x8A9E, 0x20, 0xD83C, 0xDF89]"
proof -
  have a: "escapeForJXA [] = []"
    using escapeForJXA_identity [of "[]"] by simp
  have b: "escapeForJXA (lit ''it's working'') = lit ''it's working''"
    by (rule escapeForJXA_identity) (simp_all add: lit_def)
  have c: "escapeForJXA [0x65E5, 0x672C, 0x8A9E, 0x20, 0xD83C, 0xDF89]
       = [0x65E5, 0x672C, 0x8A9E, 0x20, 0xD83C, 0xDF89]"
    by (rule escapeForJXA_identity) simp_all
  from a b c show ?thesis by blast
qed

lemma trim_Nil_iff: "trim s = [] \<longleftrightarrow> (\<forall>c\<in>set s. is_whitespace c)"
proof
  assume "trim s = []"
  then have "dropWhile is_whitespace (rev (dropWhile is_whitespace s)) = []"
    by (simp add: trim_def)
  then have all: "\<forall>c\<in>set (dropWhile is_whitespace s). is_whitespace c"
    by (simp add: dropWhile_eq_Nil_conv)
  have "dropWhile is_whitespace s = []"
  proof (rule ccontr)
    assume ne: "dropWhile is_whitespace s \<noteq> []"
    then have "\<not> is_whitespace (hd (dropWhile is_whitespace s))"
      by (rule hd_dropWhile)
    moreover from ne have "hd (dropWhile is_whitespace s) \<in> set (dropWhile is_whitespace s)"
      by simp
    ultimately show False using all by blast
  qed
  then show "\<forall>c\<in>set s. is_whitespace c"
    by (simp add: dropWhile_eq_Nil_conv)
next
  assume "\<forall>c\<in>set s. is_whitespace c"
  then have d: "dropWhile is_whitespace s = []"
    by (simp add: dropWhile_eq_Nil_conv)
  show "trim s = []" unfolding trim_def d by simp
qed

lemma trim_not_Nil: "\<exists>c\<in>set s. \<not> is_whitespace c \<Longrightarrow> s \<noteq> [] \<and> trim s \<noteq> []"
  using trim_Nil_iff [of s] by auto

lemma executeJXA_run:
  assumes "\<exists>c\<in>set script. \<not> is_whitespace c"
  shows "executeJXA large_secs execSync script options =
           (case execSync (shell_command script) (effective_timeout options) of
              Inr out \<Rightarrow> Inr \<lparr>success = True, output' = trim out, error = None\<rparr>
            | Inl e \<Rightarrow>
                (case catch_message large_secs (effective_timeout options) e of
                   Inr errorMessage \<Rightarrow>
                     Inr \<lparr>success = False, output' = [], error = Some errorMessage\<rparr>
                 | Inl x \<Rightarrow> Inl x),
            [(shell_command script, effective_timeout options)])"
  using trim_not_Nil [OF assms] by (simp add: executeJXA_def Let_def)

text \<open>
  C3. A script that is empty or made of whitespace only gives the failure result with
  the message \<open>Cannot execute empty JXA script\<close>, and the process facility is not
  invoked: the list of invocations is empty.
\<close>

theorem executeJXA_empty_script:
  assumes "\<forall>c\<in>set script. is_whitespace c"
  shows "executeJXA large_secs execSync script options =
           (Inr \<lparr>success = False, output' = [],
                 error = Some (lit ''Cannot execute empty JXA script'')\<rparr>, [])"
  using assms trim_Nil_iff [of script] by (simp add: executeJXA_def)

theorem executeJXA_empty_script_witness:
  "executeJXA (\<lambda>ms. []) (\<lambda>command ms. Inr (lit ''ran'')) [] \<lparr>timeoutMs = None\<rparr> =
     (Inr \<lparr>success = False, output' = [],
           error = Some (lit ''Cannot execute empty JXA script'')\<rparr>, [])
   \<and> executeJXA (\<lambda>ms. []) (\<lambda>command ms. Inr (lit ''ran'')) (lit ''   '') \<lparr>timeoutMs = None\<rparr> =
     (Inr \<lparr>success = False, output' = [],
           error = Some (lit ''Cannot execute empty JXA script'')\<rparr>, [])
   \<and> executeJXA (\<lambda>ms. []) (\<lambda>command ms. Inl NonError) [0x20, TAB, LF, 0xA0, 0x2003, 0xFEFF]
         \<lparr>timeoutMs = Some 5000\<rparr> =
     (Inr \<lparr>success = False, output' = [],
           error = Some (lit ''Cannot execute empty JXA script'')\<rparr>, [])"
proof -
  have a: "executeJXA (\<lambda>ms. []) (\<lambda>command ms. Inr (lit ''ran'')) [] \<lparr>timeoutMs = None\<rparr> =
     (Inr \<lparr>success = False, output' = [],
           error = Some (lit ''Cannot execute empty JXA script'')\<rparr>, [])"
    by (rule executeJXA_empty_script) simp
  have b: "executeJXA (\<lambda>ms. []) (\<lambda>command ms. Inr (lit ''ran'')) (lit ''   '') \<lparr>timeoutMs = None\<rparr> =
     (Inr \<lparr>success = False, output' = [],
           error = Some (lit ''Cannot execute empty JXA script'')\<rparr>, [])"
    by (rule executeJXA_empty_script) (simp add: lit_def is_whitespace_def)
  have c: "executeJXA (\<lambda>ms. []) (\<lambda>command ms. Inl NonError) [0x20, TAB, LF, 0xA0, 0x2003, 0xFEFF]
         \<lparr>timeoutMs = Some 5000\<rparr> =
     (Inr \<lparr>success = False, output' = [],
           error = Some (lit ''Cannot execute empty JXA script'')\<rparr>, [])"
    by (rule executeJXA_empty_script) (simp add: is_whitespace_def)
  from a b c show ?thesis by blast
qed

text \<open>
  C4. For a script with a non-whitespace character, when the facility throws an
  \<open>Error\<close> (with a string message or not) whose \<open>killed\<close> is \<open>true\<close> or whose \<open>signal\<close>
  is \<open>SIGTERM\<close>, the result is a failure whose message is \<open>Operation timed out after\<close>,
  a number of seconds and \<open>seconds\<close>. For an effective timeout (the option, or 30000)
  that is a safe integer, below \<open>2\<^sup>5\<^sup>3\<close>, the number is the timeout divided by 1000 and
  rounded to the nearest integer, in decimal digits.
\<close>

theorem executeJXA_timeout:
  assumes "\<exists>c\<in>set script. \<not> is_whitespace c"
    and "execSync (shell_command script) (effective_timeout options) = Inl e"
    and "e = ErrorObject m k sg \<or> e = ErrorNonStringMessage k sg"
    and "k = Some True \<or> sg = Some (lit ''SIGTERM'')"
  shows "(\<exists>secs. fst (executeJXA large_secs execSync script options) =
           Inr \<lparr>success = False, output' = [],
                error = Some (lit ''Operation timed out after '' @ secs @ lit '' seconds'')\<rparr>)
         \<and> (effective_timeout options < 2 ^ 53 \<longrightarrow>
             fst (executeJXA large_secs execSync script options) =
               Inr \<lparr>success = False, output' = [],
                    error = Some (lit ''Operation timed out after ''
                                  @ decimal_digits ((effective_timeout options + 500) div 1000)
                                  @ lit '' seconds'')\<rparr>)"
proof -
  from assms(3,4) have "isTimeoutError e"
    by (auto simp: isTimeoutError_def)
  with assms(2) have run: "fst (executeJXA large_secs execSync script options) =
      Inr \<lparr>success = False, output' = [],
           error = Some (lit ''Operation timed out after ''
                         @ timeout_secs_text large_secs (effective_timeout options)
                         @ lit '' seconds'')\<rparr>"
    by (simp add: executeJXA_run [OF assms(1)] catch_message_def)
  then show ?thesis
    by (auto simp: timeout_secs_text_def)
qed

theorem executeJXA_timeout_witness:
  "fst (executeJXA (\<lambda>ms. [])
          (\<lambda>command ms. Inl (ErrorObject (lit ''Command failed'') (Some True) None))
          (lit ''longRunningScript()'') \<lparr>timeoutMs = Some 5000\<rparr>) =
     Inr \<lparr>success = False, output' = [],
          error = Some (lit ''Operation timed out after 5 seconds'')\<rparr>
   \<and> fst (executeJXA (\<lambda>ms. [])
          (\<lambda>command ms. Inl (ErrorObject (lit ''spawnSync /bin/sh ETIMEDOUT'')
                                 None (Some (lit ''SIGTERM''))))
          (lit ''longRunningScript()'') \<lparr>timeoutMs = None\<rparr>) =
     Inr \<lparr>success = False, output' = [],
          error = Some (lit ''Operation timed out after 30 seconds'')\<rparr>
   \<and> fst (executeJXA (\<lambda>ms. [])
          (\<lambda>command ms. Inl (ErrorNonStringMessage (Some True) None))
          (lit ''longRunningScript()'') \<lparr>timeoutMs = Some 1500\<rparr>) =
     Inr \<lparr>success = False, output' = [],
          error = Some (lit ''Operation timed out after 2 seconds'')\<rparr>"
proof -
  have ws: "\<exists>c\<in>set (lit ''longRunningScript()''). \<not> is_whitespace c"
    by (simp add: lit_def is_whitespace_def)
  have s5: "decimal_digits ((effective_timeout \<lparr>timeoutMs = Some 5000\<rparr> + 500) div 1000)
      = lit ''5''"
    by (simp add: effective_timeout_def decimal_digits.simps lit_def)
  have s30: "decimal_digits ((effective_timeout \<lparr>timeoutMs = None\<rparr> + 500) div 1000)
      = lit ''30''"
    by (simp add: effective_timeout_def decimal_digits.simps lit_def)
  have s2: "decimal_digits ((effective_timeout \<lparr>timeoutMs = Some 1500\<rparr> + 500) div 1000)
      = lit ''2''"
    by (simp add: effective_timeout_def decimal_digits.simps lit_def)
  have b5: "effective_timeout \<lparr>timeoutMs = Some 5000\<rparr> < 2 ^ 53"
    by (simp add: effective_timeout_def)
  have b30: "effective_timeout \<lparr>timeoutMs = None\<rparr> < 2 ^ 53"
    by (simp add: effective_timeout_def)
  have b2: "effective_timeout \<lparr>timeoutMs = Some 1500\<rparr> < 2 ^ 53"
    by (simp add: effective_timeout_def)
  have a: "fst (executeJXA (\<lambda>ms. [])
          (\<lambda>command ms. Inl (ErrorObject (lit ''Command failed'') (Some True) None))
          (lit ''longRunningScript()'') \<lparr>timeoutMs = Some 5000\<rparr>) =
     Inr \<lparr>success = False, output' = [],
          error = Some (lit ''Operation timed out after 5 seconds'')\<rparr>"
    using executeJXA_timeout [OF ws,
        where execSync = "\<lambda>command ms. Inl (ErrorObject (lit ''Command failed'') (Some True) None)"
          and options = "\<lparr>timeoutMs = Some 5000\<rparr>" and large_secs = "\<lambda>ms. []"
          and e = "ErrorObject (lit ''Command failed'') (Some True) None"
          and m = "lit ''Command failed''" and k = "Some True" and sg = None]
      b5
    by (simp add: s5) (simp add: lit_def)
  have b: "fst (executeJXA (\<lambda>ms. [])
          (\<lambda>command ms. Inl (ErrorObject (lit ''spawnSync /bin/sh ETIMEDOUT'')
                                 None (Some (lit ''SIGTERM''))))
          (lit ''longRunningScript()'') \<lparr>timeoutMs = None\<rparr>) =
     Inr \<lparr>success = False, output' = [],
          error = Some (lit ''Operation timed out after 30 seconds'')\<rparr>"
    using executeJXA_timeout [OF ws,
        where execSync = "\<lambda>command ms. Inl (ErrorObject (lit ''spawnSync /bin/sh ETIMEDOUT'')
                                 None (Some (lit ''SIGTERM'')))"
          and options = "\<lparr>timeoutMs = None\<rparr>" and large_secs = "\<lambda>ms. []"
          and e = "ErrorObject (lit ''spawnSync /bin/sh ETIMEDOUT'') None (Some (lit ''SIGTERM''))"
          and m = "lit ''spawnSync /bin/sh ETIMEDOUT''" and k = None
          and sg = "Some (lit ''SIGTERM'')"]
      b30
    by (simp add: s30) (simp add: lit_def)
  have c: "fst (executeJXA (\<lambda>ms. [])
          (\<lambda>command ms. Inl (ErrorNonStringMessage (Some True) None))
          (lit ''longRunningScript()'') \<lparr>timeoutMs = Some 1500\<rparr>) =
     Inr \<lparr>success = False, output' = [],
          error = Some (lit ''Operation timed out after 2 seconds'')\<rparr>"
    using executeJXA_timeout [OF ws,
        where execSync = "\<lambda>command ms. Inl (ErrorNonStringMessage (Some True) None)"
          and options = "\<lparr>timeoutMs = Some 1500\<rparr>" and large_secs = "\<lambda>ms. []"
          and e = "ErrorNonStringMessage (Some True) None"
          and k = "Some True" and sg = None]
      b2
    by (simp add: s2) (simp add: lit_def)
  from a b c show ?thesis by blast
qed

lemma match_here_error_line:
  "match_here s =
     (if error_line_at s 0 then Some (takeWhile (\<lambda>c. \<not> is_line_terminator c) (drop 7 s))
      else None)"
proof (cases "drop 7 s")
  case Nil
  have none: "match_here s = None"
    unfolding match_here_def Nil by simp
  from Nil have "\<not> error_line_at s 0"
    by (simp add: error_line_at_def)
  with none show ?thesis by simp
next
  case (Cons x xs)
  have len: "7 < length s"
  proof (rule ccontr)
    assume "\<not> 7 < length s"
    then have "drop 7 s = []" by simp
    with Cons show False by simp
  qed
  have nth: "s ! 7 = x"
    using Cons by (rule nth_via_drop)
  from Cons len nth show ?thesis by (simp add: match_here_def error_line_at_def)
qed

lemma error_line_at_Cons: "error_line_at (c # cs) (Suc j) = error_line_at cs j"
  by (simp only: error_line_at_def drop_Suc_Cons add_Suc length_Cons Suc_less_eq nth_Cons_Suc)

lemma match_error_first:
  "error_line_at m i \<Longrightarrow> (\<forall>j<i. \<not> error_line_at m j) \<Longrightarrow>
     match_error m = Some (takeWhile (\<lambda>c. \<not> is_line_terminator c) (drop (i + 7) m))"
proof (induction m arbitrary: i)
  case Nil
  then show ?case by (simp add: error_line_at_def)
next
  case (Cons c cs)
  show ?case
  proof (cases i)
    case 0
    with Cons.prems(1) show ?thesis by (simp add: match_here_error_line)
  next
    case (Suc i')
    from Cons.prems(2) Suc have no0: "\<not> error_line_at (c # cs) 0" by blast
    from Cons.prems(1) Suc have at: "error_line_at cs i'"
      by (simp add: error_line_at_Cons)
    have before: "\<forall>j<i'. \<not> error_line_at cs j"
    proof (intro allI impI)
      fix j assume "j < i'"
      then have "Suc j < i" using Suc by simp
      with Cons.prems(2) have "\<not> error_line_at (c # cs) (Suc j)" by blast
      then show "\<not> error_line_at cs j" by (simp add: error_line_at_Cons)
    qed
    have shift: "drop (i + 7) (c # cs) = drop (i' + 7) cs"
      by (simp only: Suc add_Suc drop_Suc_Cons)
    have "match_error (c # cs) = match_error cs"
      using no0 by (simp add: match_here_error_line)
    with Cons.IH [OF at before] show ?thesis
      by (simp only: shift)
  qed
qed

lemma match_error_None_iff: "match_error m = None \<longleftrightarrow> (\<forall>j. \<not> error_line_at m j)"
proof (induction m)
  case Nil
  then show ?case by (simp add: error_line_at_def)
next
  case (Cons c cs)
  have split: "(\<forall>j. \<not> error_line_at (c # cs) j)
      \<longleftrightarrow> \<not> error_line_at (c # cs) 0 \<and> (\<forall>j. \<not> error_line_at cs j)"
  proof
    assume a: "\<forall>j. \<not> error_line_at (c # cs) j"
    then have "\<forall>j. \<not> error_line_at (c # cs) (Suc j)" by blast
    with a show "\<not> error_line_at (c # cs) 0 \<and> (\<forall>j. \<not> error_line_at cs j)"
      by (simp add: error_line_at_Cons)
  next
    assume a: "\<not> error_line_at (c # cs) 0 \<and> (\<forall>j. \<not> error_line_at cs j)"
    show "\<forall>j. \<not> error_line_at (c # cs) j"
    proof
      fix j show "\<not> error_line_at (c # cs) j"
        using a by (cases j) (simp_all add: error_line_at_Cons)
    qed
  qed
  show ?case unfolding split using Cons.IH
    by (simp add: match_here_error_line)
qed



lemma match_error_prefix:
  assumes "d \<noteq> []" and "\<forall>c\<in>set d. \<not> is_line_terminator c"
  shows "match_error (lit ''Error: '' @ d) = Some d"
proof -
  have len: "length (lit ''Error: '') = 7" by (simp add: lit_def)
  have tw: "takeWhile (\<lambda>c. \<not> is_line_terminator c) d = d"
    using assms(2) by (simp add: takeWhile_eq_all_conv)
  have "match_here (lit ''Error: '' @ d) = Some d"
    using assms(1) by (simp add: match_here_def len tw)
  moreover obtain c cs where "lit ''Error: '' @ d = c # cs"
    using assms(1) by (cases "lit ''Error: '' @ d") auto
  ultimately show ?thesis by simp
qed

text \<open>
  C5, as stated, fails where the details run over more than one line: for the message
  \<open>Error: Cannot find note\<close>, a newline, \<open>(-1728)\<close> the reported error is
  \<open>Cannot find note\<close> alone, since \<open>.\<close> stops at a line terminator.
\<close>

theorem executeJXA_error_first_line_only:
  "fst (executeJXA (\<lambda>ms. [])
          (\<lambda>command ms. Inl (ErrorObject (lit ''Error: Cannot find note'' @ [LF] @ lit ''(-1728)'')
                                 None None))
          (lit ''Notes.notes()'') \<lparr>timeoutMs = None\<rparr>)
     = Inr \<lparr>success = False, output' = [], error = Some (lit ''Cannot find note'')\<rparr>
   \<and> lit ''Error: Cannot find note'' @ [LF] @ lit ''(-1728)''
       = lit ''Error: '' @ (lit ''Cannot find note'' @ [LF] @ lit ''(-1728)'')
   \<and> lit ''Cannot find note'' \<noteq> lit ''Cannot find note'' @ [LF] @ lit ''(-1728)''"
  by (simp add: executeJXA_def Let_def trim_def is_whitespace_def catch_message_def
        isTimeoutError_def match_here_def is_line_terminator_def effective_timeout_def lit_def)

text \<open>
  C5, amended. For a script with a non-whitespace character and a facility that throws
  a value that is not a timeout error:
  \<^item> an \<open>Error\<close> whose message is \<open>Error: \<close> followed by non-empty details without a
    line terminator is reported as those details;
  \<^item> in general, an \<open>Error\<close> is reported as the rest of the line after the first
    \<open>Error: \<close> of the message that has a code unit after it on its line;
  \<^item> an \<open>Error\<close> whose message has no such place is reported by its raw message;
  \<^item> a thrown value that is not an \<open>Error\<close> is reported as
    \<open>JXA execution failed with unknown error\<close>.
\<close>

theorem executeJXA_error_message:
  assumes "\<exists>c\<in>set script. \<not> is_whitespace c"
  shows
    "(execSync (shell_command script) (effective_timeout options)
          = Inl (ErrorObject (lit ''Error: '' @ d) k sg)
        \<and> \<not> isTimeoutError (ErrorObject (lit ''Error: '' @ d) k sg)
        \<and> d \<noteq> [] \<and> (\<forall>c\<in>set d. \<not> is_line_terminator c)
      \<longrightarrow> fst (executeJXA large_secs execSync script options)
            = Inr \<lparr>success = False, output' = [], error = Some d\<rparr>)
     \<and> (execSync (shell_command script) (effective_timeout options) = Inl (ErrorObject m k sg)
        \<and> \<not> isTimeoutError (ErrorObject m k sg)
        \<and> error_line_at m i \<and> (\<forall>j<i. \<not> error_line_at m j)
      \<longrightarrow> fst (executeJXA large_secs execSync script options)
            = Inr \<lparr>success = False, output' = [],
                   error = Some (takeWhile (\<lambda>c. \<not> is_line_terminator c) (drop (i + 7) m))\<rparr>)
     \<and> (execSync (shell_command script) (effective_timeout options) = Inl (ErrorObject m k sg)
        \<and> \<not> isTimeoutError (ErrorObject m k sg)
        \<and> (\<forall>j. \<not> error_line_at m j)
      \<longrightarrow> fst (executeJXA large_secs execSync script options)
            = Inr \<lparr>success = False, output' = [], error = Some m\<rparr>)
     \<and> (execSync (shell_command script) (effective_timeout options) = Inl NonError
      \<longrightarrow> fst (executeJXA large_secs execSync script options)
            = Inr \<lparr>success = False, output' = [],
                   error = Some (lit ''JXA execution failed with unknown error'')\<rparr>)"
proof (intro conjI impI)
  assume h: "execSync (shell_command script) (effective_timeout options)
          = Inl (ErrorObject (lit ''Error: '' @ d) k sg)
        \<and> \<not> isTimeoutError (ErrorObject (lit ''Error: '' @ d) k sg)
        \<and> d \<noteq> [] \<and> (\<forall>c\<in>set d. \<not> is_line_terminator c)"
  then have "match_error (lit ''Error: '' @ d) = Some d"
    by (simp add: match_error_prefix)
  with h show "fst (executeJXA large_secs execSync script options)
            = Inr \<lparr>success = False, output' = [], error = Some d\<rparr>"
    by (simp add: executeJXA_run [OF assms] catch_message_def)
next
  assume h: "execSync (shell_command script) (effective_timeout options) = Inl (ErrorObject m k sg)
        \<and> \<not> isTimeoutError (ErrorObject m k sg)
        \<and> error_line_at m i \<and> (\<forall>j<i. \<not> error_line_at m j)"
  then have "match_error m
      = Some (takeWhile (\<lambda>c. \<not> is_line_terminator c) (drop (i + 7) m))"
    by (simp add: match_error_first)
  with h show "fst (executeJXA large_secs execSync script options)
            = Inr \<lparr>success = False, output' = [],
                   error = Some (takeWhile (\<lambda>c. \<not> is_line_terminator c) (drop (i + 7) m))\<rparr>"
    by (simp add: executeJXA_run [OF assms] catch_message_def)
next
  assume h: "execSync (shell_command script) (effective_timeout options) = Inl (ErrorObject m k sg)
        \<and> \<not> isTimeoutError (ErrorObject m k sg)
        \<and> (\<forall>j. \<not> error_line_at m j)"
  then have "match_error m = None"
    by (simp add: match_error_None_iff)
  with h show "fst (executeJXA large_secs execSync script options)
            = Inr \<lparr>success = False, output' = [], error = Some m\<rparr>"
    by (simp add: executeJXA_run [OF assms] catch_message_def)
next
  assume "execSync (shell_command script) (effective_timeout options) = Inl NonError"
  then show "fst (executeJXA large_secs execSync script options)
            = Inr \<lparr>success = False, output' = [],
                   error = Some (lit ''JXA execution failed with unknown error'')\<rparr>"
    by (simp add: executeJXA_run [OF assms] catch_message_def isTimeoutError_def)
qed

theorem executeJXA_error_message_witness:
  "fst (executeJXA (\<lambda>ms. []) (\<lambda>command ms. Inl (ErrorObject (lit ''Error: Cannot find note'') None None))
          (lit ''Notes.notes()'') \<lparr>timeoutMs = None\<rparr>)
     = Inr \<lparr>success = False, output' = [], error = Some (lit ''Cannot find note'')\<rparr>
   \<and> fst (executeJXA (\<lambda>ms. [])
          (\<lambda>command ms. Inl (ErrorObject
             (lit ''sh:'' @ [LF] @ lit ''Error: Error: no note'' @ [LF] @ lit ''(-1728)'')
             (Some False) None))
          (lit ''Notes.notes()'') \<lparr>timeoutMs = None\<rparr>)
     = Inr \<lparr>success = False, output' = [], error = Some (lit ''Error: no note'')\<rparr>
   \<and> fst (executeJXA (\<lambda>ms. []) (\<lambda>command ms. Inl (ErrorObject (lit ''Command failed'') None None))
          (lit ''Notes.notes()'') \<lparr>timeoutMs = None\<rparr>)
     = Inr \<lparr>success = False, output' = [], error = Some (lit ''Command failed'')\<rparr>
   \<and> fst (executeJXA (\<lambda>ms. []) (\<lambda>command ms. Inl NonError) (lit ''Notes.notes()'') \<lparr>timeoutMs = None\<rparr>)
     = Inr \<lparr>success = False, output' = [],
            error = Some (lit ''JXA execution failed with unknown error'')\<rparr>"
proof -
  have ws: "\<exists>c\<in>set (lit ''Notes.notes()''). \<not> is_whitespace c"
    by (simp add: lit_def is_whitespace_def)
  let ?m1 = "lit ''Error: Cannot find note''"
  let ?m2 = "lit ''sh:'' @ [LF] @ lit ''Error: Error: no note'' @ [LF] @ lit ''(-1728)''"
  let ?m3 = "lit ''Command failed''"
  have at2: "error_line_at ?m2 4"
    by (simp add: error_line_at_def lit_def is_line_terminator_def)
  have before2: "\<forall>j<4. \<not> error_line_at ?m2 j"
  proof (intro allI impI)
    fix j :: nat assume "j < 4"
    then consider "j = 0" | "j = 1" | "j = 2" | "j = 3" by linarith
    then show "\<not> error_line_at ?m2 j"
      by cases (simp_all add: error_line_at_def lit_def)
  qed
  have none3: "\<forall>j. \<not> error_line_at ?m3 j"
    unfolding match_error_None_iff [symmetric]
    by (simp add: match_here_def lit_def)
  have a: "fst (executeJXA (\<lambda>ms. []) (\<lambda>command ms. Inl (ErrorObject ?m1 None None))
          (lit ''Notes.notes()'') \<lparr>timeoutMs = None\<rparr>)
     = Inr \<lparr>success = False, output' = [], error = Some (lit ''Cannot find note'')\<rparr>"
    using executeJXA_error_message [OF ws,
        where execSync = "\<lambda>command ms. Inl (ErrorObject ?m1 None None)"
          and options = "\<lparr>timeoutMs = None\<rparr>" and d = "lit ''Cannot find note''"
          and k = None and sg = None]
    by (simp add: isTimeoutError_def lit_def is_line_terminator_def)
  have b: "fst (executeJXA (\<lambda>ms. []) (\<lambda>command ms. Inl (ErrorObject ?m2 (Some False) None))
          (lit ''Notes.notes()'') \<lparr>timeoutMs = None\<rparr>)
     = Inr \<lparr>success = False, output' = [], error = Some (lit ''Error: no note'')\<rparr>"
    using executeJXA_error_message [OF ws,
        where execSync = "\<lambda>command ms. Inl (ErrorObject ?m2 (Some False) None)"
          and options = "\<lparr>timeoutMs = None\<rparr>" and m = ?m2 and k = "Some False" and sg = None
          and i = 4]
      at2 before2
    by (simp add: isTimeoutError_def lit_def is_line_terminator_def)
  have c: "fst (executeJXA (\<lambda>ms. []) (\<lambda>command ms. Inl (ErrorObject ?m3 None None))
          (lit ''Notes.notes()'') \<lparr>timeoutMs = None\<rparr>)
     = Inr \<lparr>success = False, output' = [], error = Some (lit ''Command failed'')\<rparr>"
    using executeJXA_error_message [OF ws,
        where execSync = "\<lambda>command ms. Inl (ErrorObject ?m3 None None)"
          and options = "\<lparr>timeoutMs = None\<rparr>" and m = ?m3 and k = None and sg = None]
      none3
    by (simp add: isTimeoutError_def)
  have d: "fst (executeJXA (\<lambda>ms. []) (\<lambda>command ms. Inl NonError) (lit ''Notes.notes()'')
          \<lparr>timeoutMs = None\<rparr>)
     = Inr \<lparr>success = False, output' = [],
            error = Some (lit ''JXA execution failed with unknown error'')\<rparr>"
    using executeJXA_error_message [OF ws,
        where execSync = "\<lambda>command ms. Inl NonError" and options = "\<lparr>timeoutMs = None\<rparr>"]
    by simp
  from a b c d show ?thesis by blast
qed


text \<open>
  C6. For a script with a non-whitespace character, when the facility returns standard
  output the result is a success carrying that output trimmed, and the facility was
  invoked once, with the command \<open>osascript -l JavaScript -e\<close> followed by the trimmed
  script between single quotes, each single quote of the script replaced by a quote, a
  backslash and two quotes.
\<close>

theorem executeJXA_success:
  assumes "\<exists>c\<in>set script. \<not> is_whitespace c"
    and "execSync (shell_command script) (effective_timeout options) = Inr out"
  shows "executeJXA large_secs execSync script options =
           (Inr \<lparr>success = True, output' = trim out, error = None\<rparr>,
            [(lit ''osascript -l JavaScript -e '' @ [SQUOTE]
                @ replace_all SQUOTE [SQUOTE, BACKSLASH, SQUOTE, SQUOTE] (trim script)
                @ [SQUOTE],
              effective_timeout options)])"
  using assms(2) by (simp add: executeJXA_run [OF assms(1)]) (simp add: shell_command_def)

theorem executeJXA_success_witness:
  "executeJXA (\<lambda>ms. []) (\<lambda>command ms. Inr (lit ''test output'' @ [LF]))
      (lit ''JSON.stringify({test: true})'') \<lparr>timeoutMs = None\<rparr> =
     (Inr \<lparr>success = True, output' = lit ''test output'', error = None\<rparr>,
      [(lit ''osascript -l JavaScript -e '' @ [SQUOTE] @ lit ''JSON.stringify({test: true})''
          @ [SQUOTE], 30000)])
   \<and> executeJXA (\<lambda>ms. []) (\<lambda>command ms. Inr (lit '' ok '')) (lit '' it's '' @ [LF])
      \<lparr>timeoutMs = Some 5000\<rparr> =
     (Inr \<lparr>success = True, output' = lit ''ok'', error = None\<rparr>,
      [(lit ''osascript -l JavaScript -e '' @ [SQUOTE] @ lit ''it''
          @ [SQUOTE, BACKSLASH, SQUOTE, SQUOTE] @ lit ''s'' @ [SQUOTE], 5000)])"
proof -
  have ws1: "\<exists>c\<in>set (lit ''JSON.stringify({test: true})''). \<not> is_whitespace c"
    by (simp add: lit_def is_whitespace_def)
  have ws2: "\<exists>c\<in>set (lit '' it's '' @ [LF]). \<not> is_whitespace c"
    by (simp add: lit_def is_whitespace_def)
  have a: "executeJXA (\<lambda>ms. []) (\<lambda>command ms. Inr (lit ''test output'' @ [LF]))
      (lit ''JSON.stringify({test: true})'') \<lparr>timeoutMs = None\<rparr> =
     (Inr \<lparr>success = True, output' = lit ''test output'', error = None\<rparr>,
      [(lit ''osascript -l JavaScript -e '' @ [SQUOTE] @ lit ''JSON.stringify({test: true})''
          @ [SQUOTE], 30000)])"
    using executeJXA_success [OF ws1,
        where execSync = "\<lambda>command ms. Inr (lit ''test output'' @ [LF])"
          and options = "\<lparr>timeoutMs = None\<rparr>" and out = "lit ''test output'' @ [LF]"]
    by (simp add: trim_def is_whitespace_def effective_timeout_def lit_def)
  have b: "executeJXA (\<lambda>ms. []) (\<lambda>command ms. Inr (lit '' ok '')) (lit '' it's '' @ [LF])
      \<lparr>timeoutMs = Some 5000\<rparr> =
     (Inr \<lparr>success = True, output' = lit ''ok'', error = None\<rparr>,
      [(lit ''osascript -l JavaScript -e '' @ [SQUOTE] @ lit ''it''
          @ [SQUOTE, BACKSLASH, SQUOTE, SQUOTE] @ lit ''s'' @ [SQUOTE], 5000)])"
    using executeJXA_success [OF ws2,
        where execSync = "\<lambda>command ms. Inr (lit '' ok '')"
          and options = "\<lparr>timeoutMs = Some 5000\<rparr>" and out = "lit '' ok ''"]
    by (simp add: trim_def is_whitespace_def effective_timeout_def lit_def)
  from a b show ?thesis by blast
qed




text \<open>
  C10. Every returned result has one of two shapes: a success has no error field; a
  failure has the empty output and an error field. No result has both a non-empty
  output and an error.
\<close>

theorem executeJXA_result_shape:
  assumes "fst (executeJXA large_secs execSync script options) = Inr r"
  shows "(if success r then error r = None
          else output' r = [] \<and> (\<exists>msg. error r = Some msg))
         \<and> (output' r = [] \<or> error r = None)"
  using assms
  by (cases "execSync (shell_command script) (effective_timeout options)")
     (auto simp: executeJXA_def Let_def split: if_splits sum.splits)

theorem executeJXA_result_shape_witness:
  "fst (executeJXA (\<lambda>ms. []) (\<lambda>command ms. Inl NonError) (lit ''run()'') \<lparr>timeoutMs = None\<rparr>)
     = Inr \<lparr>success = False, output' = [],
            error = Some (lit ''JXA execution failed with unknown error'')\<rparr>
   \<and> output' \<lparr>success = False, output' = [],
            error = Some (lit ''JXA execution failed with unknown error'')\<rparr> = []
   \<and> fst (executeJXA (\<lambda>ms. []) (\<lambda>command ms. Inr (lit ''test output'' @ [LF])) (lit ''run()'')
          \<lparr>timeoutMs = None\<rparr>)
     = Inr \<lparr>success = True, output' = lit ''test output'', error = None\<rparr>
   \<and> error \<lparr>success = True, output' = lit ''test output'', error = None\<rparr> = None"
proof -
  let ?bad = "\<lparr>success = False, output' = [],
            error = Some (lit ''JXA execution failed with unknown error'')\<rparr>"
  let ?good = "\<lparr>success = True, output' = lit ''test output'', error = None\<rparr>"
  have run1: "fst (executeJXA (\<lambda>ms. []) (\<lambda>command ms. Inl NonError) (lit ''run()'')
      \<lparr>timeoutMs = None\<rparr>) = Inr ?bad"
    by (simp add: executeJXA_def Let_def trim_def is_whitespace_def catch_message_def
          isTimeoutError_def lit_def)
  have run2: "fst (executeJXA (\<lambda>ms. []) (\<lambda>command ms. Inr (lit ''test output'' @ [LF])) (lit ''run()'')
      \<lparr>timeoutMs = None\<rparr>) = Inr ?good"
    by (simp add: executeJXA_def Let_def trim_def is_whitespace_def lit_def)
  from executeJXA_result_shape [OF run1] have s1: "output' ?bad = []" by simp
  from executeJXA_result_shape [OF run2] have s2: "error ?good = None" by simp
  from run1 s1 run2 s2 show ?thesis by blast
qed

text \<open>
  C9. The script built for a fragment is, in order: the binding of the Notes
  application handle, the statement enabling standard additions, and the fragment
  itself, unchanged and in one piece, each on a line of its own (so the script has
  several lines), with nothing but indentation and line breaks around them.
\<close>

theorem buildNotesJXA_layout:
  "buildNotesJXA code =
     (LF # lit ''    '')
       @ (lit ''const Notes = Application('' @ [DQUOTE] @ lit ''Notes'' @ [DQUOTE] @ lit '');'')
       @ (LF # lit ''    '')
       @ lit ''Notes.includeStandardAdditions = true;''
       @ (LF # lit ''    '')
       @ code
       @ (LF # lit ''  '')
   \<and> LF \<in> set (buildNotesJXA code)"
  by (simp add: buildNotesJXA_def lit_def)

end
